theory Spec2Isabelle
  imports Complex_Main "HOL-Library.Word" "HOL-Library.Multiset"
begin

section \<open>Creator Social API: the seed-and-query data model\<close>

text \<open>
  A shallow embedding of \<^verbatim>\<open>main.py\<close>: the six request handlers, the part of the
  document store they call, and the Python conversions the read path applies. A handler
  is a function of the database handle (\<open>None\<close> when the database is not configured)
  and of its parameters; it returns a sum, \<open>Inl\<close> for the exception it raises, and the
  seed handler returns the updated database beside its response.
\<close>

subsection \<open>Strings\<close>

text \<open>
  A Python \<^verbatim>\<open>str\<close> is a sequence of code points, and \<^verbatim>\<open>s[:50]\<close> counts code
  points, so a string is a list of code points. \<open>lit\<close> embeds an ASCII literal.
\<close>

type_synonym pystr = "nat list"

definition lit :: "string \<Rightarrow> pystr" where
  "lit s = map of_char s"

subsection \<open>Stored field values\<close>

text \<open>
  A double is either one of the three special values or a finite real (the model does not
  tell \<^verbatim>\<open>-0.0\<close> from \<^verbatim>\<open>0.0\<close>). An ObjectId is twelve bytes.
\<close>

datatype pyfloat = Finite real | PosInf | NegInf | NaN

type_synonym objectid = "96 word"

text \<open>
  The values a field of a stored document holds: null, booleans, integers, doubles,
  strings, ObjectIds and arrays of these. Embedded documents, dates and binary data, which
  neither the seed catalogue nor the output shapes use, are left out.
\<close>

datatype bson =
    VNone
  | VBool bool
  | VInt int
  | VFloat pyfloat
  | VStr pystr
  | VOid objectid
  | VList "bson list"

text \<open>A Python dict with string keys; \<open>dict_lit\<close> is a dict display with literal keys.\<close>

type_synonym dict = "pystr \<rightharpoonup> bson"

definition dict_lit :: "(string \<times> bson) list \<Rightarrow> dict" where
  "dict_lit kvs = map_of (map (\<lambda>(k, v). (lit k, v)) kvs)"

text \<open>\<^verbatim>\<open>d.get(k)\<close> and \<^verbatim>\<open>d.get(k, default)\<close>.\<close>

definition get :: "dict \<Rightarrow> pystr \<Rightarrow> bson" where
  "get d k = (case d k of None \<Rightarrow> VNone | Some v \<Rightarrow> v)"

definition get_default :: "dict \<Rightarrow> pystr \<Rightarrow> bson \<Rightarrow> bson" where
  "get_default d k dflt = (case d k of None \<Rightarrow> dflt | Some v \<Rightarrow> v)"

text \<open>
  A stored document: the identifier the store assigned, and its other fields. The dict
  a query returns for it is never empty, since it holds \<^verbatim>\<open>_id\<close>.
\<close>

record document =
  oid :: objectid
  contents :: dict

subsection \<open>Exceptions\<close>

datatype error =
    HTTPException nat pystr
  | KeyError pystr
  | TypeError
  | ValueError
  | OverflowError
  | ValidationError

subsection \<open>Python's conversions\<close>

text \<open>
  What \<^verbatim>\<open>int\<close>, \<^verbatim>\<open>float\<close> and \<^verbatim>\<open>bool\<close> do on a stored value. Parsing a
  number out of a string, and what a pydantic \<^verbatim>\<open>str\<close> field does with a number
  (version 1 renders it, version 2 rejects it), are parameters of the model: \<open>None\<close>
  is the rejection.
\<close>

record pylib =
  int_of_str :: "pystr \<Rightarrow> int option"
  float_of_str :: "pystr \<Rightarrow> pyfloat option"
  str_of_num :: "bson \<Rightarrow> pystr option"

fun bit_length :: "nat \<Rightarrow> nat" where
  "bit_length n = (if n = 0 then 0 else Suc (bit_length (n div 2)))"

declare bit_length.simps [simp del]

text \<open>
  \<^verbatim>\<open>float(n)\<close> for an integer: the 53 leading bits, rounded half to even;
  OverflowError from \<open>2 ^ 1024\<close> on.
\<close>

definition float_of_int :: "int \<Rightarrow> error + pyfloat" where
  "float_of_int n =
     (let a = nat \<bar>n\<bar>;
          k = bit_length a - 53;
          q = a div 2 ^ k;
          r = a mod 2 ^ k;
          q' = (if 2 ^ k < 2 * r \<or> (2 * r = 2 ^ k \<and> odd q) then q + 1 else q);
          m = q' * 2 ^ k
      in if 2 ^ 1024 \<le> m then Inl OverflowError
         else Inr (Finite (if n < 0 then - real m else real m)))"

definition truncate :: "real \<Rightarrow> int" where
  "truncate x = (if 0 \<le> x then \<lfloor>x\<rfloor> else \<lceil>x\<rceil>)"

fun py_int :: "pylib \<Rightarrow> bson \<Rightarrow> error + int" where
  "py_int L (VInt n) = Inr n"
| "py_int L (VBool b) = Inr (if b then 1 else 0)"
| "py_int L (VFloat (Finite x)) = Inr (truncate x)"
| "py_int L (VFloat NaN) = Inl ValueError"
| "py_int L (VFloat _) = Inl OverflowError"
| "py_int L (VStr s) = (case int_of_str L s of None \<Rightarrow> Inl ValueError | Some n \<Rightarrow> Inr n)"
| "py_int L _ = Inl TypeError"

fun py_float :: "pylib \<Rightarrow> bson \<Rightarrow> error + pyfloat" where
  "py_float L (VFloat x) = Inr x"
| "py_float L (VInt n) = float_of_int n"
| "py_float L (VBool b) = Inr (Finite (if b then 1 else 0))"
| "py_float L (VStr s) = (case float_of_str L s of None \<Rightarrow> Inl ValueError | Some x \<Rightarrow> Inr x)"
| "py_float L _ = Inl TypeError"

fun py_bool :: "bson \<Rightarrow> bool" where
  "py_bool VNone = False"
| "py_bool (VBool b) = b"
| "py_bool (VInt n) = (n \<noteq> 0)"
| "py_bool (VFloat (Finite x)) = (x \<noteq> 0)"
| "py_bool (VFloat _) = True"
| "py_bool (VStr s) = (s \<noteq> [])"
| "py_bool (VOid _) = True"
| "py_bool (VList xs) = (xs \<noteq> [])"

text \<open>\<^verbatim>\<open>str\<close> of an ObjectId: its 24 lower-case hexadecimal digits.\<close>

definition hex_digit :: "nat \<Rightarrow> nat" where
  "hex_digit n = (if n < 10 then 48 + n else 87 + n)"

fun hex_str :: "nat \<Rightarrow> nat \<Rightarrow> pystr" where
  "hex_str 0 n = []"
| "hex_str (Suc w) n = hex_str w (n div 16) @ [hex_digit (n mod 16)]"

definition str_of_oid :: "objectid \<Rightarrow> pystr" where
  "str_of_oid i = hex_str 24 (unat i)"

subsection \<open>The output shapes\<close>

text \<open>
  \<open>and_then\<close> sequences two steps, the first exception ending the run; \<open>project_all\<close>
  is the loop \<^verbatim>\<open>for d in docs: res.append(f(d))\<close>.
\<close>

definition and_then :: "error + 'a \<Rightarrow> ('a \<Rightarrow> error + 'b) \<Rightarrow> error + 'b" where
  "and_then m f = (case m of Inl e \<Rightarrow> Inl e | Inr x \<Rightarrow> f x)"

fun project_all :: "('a \<Rightarrow> error + 'b) \<Rightarrow> 'a list \<Rightarrow> error + 'b list" where
  "project_all f [] = Inr []"
| "project_all f (d # ds) =
     and_then (f d) (\<lambda>c. and_then (project_all f ds) (\<lambda>cs. Inr (c # cs)))"

text \<open>
  Field validation of the two pydantic models: a \<^verbatim>\<open>str\<close> field takes a string, an
  \<^verbatim>\<open>Optional[str]\<close> field a string or \<^verbatim>\<open>None\<close>, a \<^verbatim>\<open>List[str]\<close> field a
  list of strings. The integer, float and boolean fields receive values the handler has
  already converted.
\<close>

fun str_field :: "pylib \<Rightarrow> bson \<Rightarrow> error + pystr" where
  "str_field L (VStr s) = Inr s"
| "str_field L VNone = Inl ValidationError"
| "str_field L (VOid i) = Inl ValidationError"
| "str_field L (VList xs) = Inl ValidationError"
| "str_field L v = (case str_of_num L v of None \<Rightarrow> Inl ValidationError | Some s \<Rightarrow> Inr s)"

fun optional_str_field :: "pylib \<Rightarrow> bson \<Rightarrow> error + pystr option" where
  "optional_str_field L VNone = Inr None"
| "optional_str_field L v = and_then (str_field L v) (\<lambda>s. Inr (Some s))"

fun str_list_field :: "pylib \<Rightarrow> bson \<Rightarrow> error + pystr list" where
  "str_list_field L (VList xs) = project_all (str_field L) xs"
| "str_list_field L v = Inl ValidationError"

record SeedResponse =
  segments_created :: int
  creators_created :: int

record CreatorOut =
  c_id :: pystr
  c_name :: pystr
  c_handle :: "pystr option"
  c_avatar_url :: "pystr option"
  c_segments :: "pystr list"
  c_followers :: int
  c_rating :: pyfloat
  c_verified :: bool

record SegmentOut =
  s_name :: pystr
  s_slug :: pystr
  s_description :: "pystr option"
  s_color :: "pystr option"

text \<open>The constructors \<^verbatim>\<open>CreatorOut(...)\<close> and \<^verbatim>\<open>SegmentOut(...)\<close>.\<close>

definition new_CreatorOut ::
  "pylib \<Rightarrow> pystr \<Rightarrow> bson \<Rightarrow> bson \<Rightarrow> bson \<Rightarrow> bson \<Rightarrow> int \<Rightarrow> pyfloat \<Rightarrow> bool \<Rightarrow> error + CreatorOut" where
  "new_CreatorOut L i n h a s f r v =
     and_then (str_field L n) (\<lambda>n'.
     and_then (optional_str_field L h) (\<lambda>h'.
     and_then (optional_str_field L a) (\<lambda>a'.
     and_then (str_list_field L s) (\<lambda>s'.
       Inr \<lparr>c_id = i, c_name = n', c_handle = h', c_avatar_url = a', c_segments = s',
            c_followers = f, c_rating = r, c_verified = v\<rparr>))))"

definition new_SegmentOut :: "pylib \<Rightarrow> bson \<Rightarrow> bson \<Rightarrow> bson \<Rightarrow> bson \<Rightarrow> error + SegmentOut" where
  "new_SegmentOut L n s d c =
     and_then (str_field L n) (\<lambda>n'.
     and_then (str_field L s) (\<lambda>s'.
     and_then (optional_str_field L d) (\<lambda>d'.
     and_then (optional_str_field L c) (\<lambda>c'.
       Inr \<lparr>s_name = n', s_slug = s', s_description = d', s_color = c'\<rparr>))))"

subsection \<open>The document store\<close>

text \<open>
  The order of stored values: by kind first (null, numbers, strings, arrays, ObjectIds,
  booleans), then within the kind. Integers and doubles compare as numbers, NaN lowest;
  strings and arrays lexicographically.
\<close>

datatype cmp = LT | EQ | GT

definition cmp_of :: "'a::linorder \<Rightarrow> 'a \<Rightarrow> cmp" where
  "cmp_of a b = (if a < b then LT else if a = b then EQ else GT)"

fun cmp_pair :: "nat \<times> real \<Rightarrow> nat \<times> real \<Rightarrow> cmp" where
  "cmp_pair (i, x) (j, y) = (if i = j then cmp_of x y else cmp_of i j)"

fun cmp_str :: "pystr \<Rightarrow> pystr \<Rightarrow> cmp" where
  "cmp_str [] [] = EQ"
| "cmp_str [] (y # ys) = LT"
| "cmp_str (x # xs) [] = GT"
| "cmp_str (x # xs) (y # ys) = (if x = y then cmp_str xs ys else cmp_of x y)"

fun kind :: "bson \<Rightarrow> nat" where
  "kind VNone = 5"
| "kind (VInt n) = 10"
| "kind (VFloat x) = 10"
| "kind (VStr s) = 15"
| "kind (VList xs) = 25"
| "kind (VOid i) = 35"
| "kind (VBool b) = 40"

fun number :: "bson \<Rightarrow> nat \<times> real" where
  "number (VInt n) = (2, of_int n)"
| "number (VFloat (Finite x)) = (2, x)"
| "number (VFloat NaN) = (0, 0)"
| "number (VFloat NegInf) = (1, 0)"
| "number (VFloat PosInf) = (3, 0)"
| "number v = (0, 0)"

fun bson_cmp :: "bson \<Rightarrow> bson \<Rightarrow> cmp" and bson_cmp_list :: "bson list \<Rightarrow> bson list \<Rightarrow> cmp" where
  "bson_cmp (VList xs) (VList ys) = bson_cmp_list xs ys"
| "bson_cmp (VStr s) (VStr t) = cmp_str s t"
| "bson_cmp (VOid i) (VOid j) = cmp_of (unat i) (unat j)"
| "bson_cmp (VBool a) (VBool b) = cmp_of a b"
| "bson_cmp v w = (if kind v = kind w then cmp_pair (number v) (number w) else cmp_of (kind v) (kind w))"
| "bson_cmp_list [] [] = EQ"
| "bson_cmp_list [] (y # ys) = LT"
| "bson_cmp_list (x # xs) [] = GT"
| "bson_cmp_list (x # xs) (y # ys) =
     (case bson_cmp x y of EQ \<Rightarrow> bson_cmp_list xs ys | LT \<Rightarrow> LT | GT \<Rightarrow> GT)"

definition bson_eq :: "bson \<Rightarrow> bson \<Rightarrow> bool" where
  "bson_eq v w = (bson_cmp v w = EQ)"

text \<open>
  Queries: the empty filter \<^verbatim>\<open>{}\<close>, an equality \<^verbatim>\<open>{k: v}\<close> and a membership
  \<^verbatim>\<open>{k: {"$in": vs}}\<close>, on a top-level field. A stored array matches a value when it
  equals the value or holds it; a missing field matches null only.
\<close>

datatype query = MatchAll | FieldEq pystr bson | FieldIn pystr "bson list"

definition field_matches :: "bson option \<Rightarrow> bson \<Rightarrow> bool" where
  "field_matches stored v =
     (case stored of
        None \<Rightarrow> v = VNone
      | Some (VList xs) \<Rightarrow> bson_eq (VList xs) v \<or> list_ex (\<lambda>x. bson_eq x v) xs
      | Some w \<Rightarrow> bson_eq w v)"

fun matches :: "query \<Rightarrow> document \<Rightarrow> bool" where
  "matches MatchAll d = True"
| "matches (FieldEq k v) d = field_matches (contents d k) v"
| "matches (FieldIn k vs) d = list_ex (field_matches (contents d k)) vs"

text \<open>
  A database handle: its collections by name, in insertion order (a collection never
  written to is empty), and the ObjectIds the driver will assign, in the order it will
  assign them.
\<close>

record mongodb =
  colls :: "pystr \<Rightarrow> document list"
  fresh_ids :: "nat \<Rightarrow> objectid"

definition find_one :: "document list \<Rightarrow> query \<Rightarrow> document option" where
  "find_one coll q = find (matches q) coll"

definition find_all :: "document list \<Rightarrow> query \<Rightarrow> document list" where
  "find_all coll q = filter (matches q) coll"

text \<open>
  \<^verbatim>\<open>insert_one\<close> of a dict that carries no \<^verbatim>\<open>_id\<close>, as every dict of the seed
  catalogue: the driver assigns the next ObjectId and the document goes last.
\<close>

definition insert_one :: "mongodb \<Rightarrow> pystr \<Rightarrow> dict \<Rightarrow> mongodb" where
  "insert_one db name d =
     db\<lparr>colls := (colls db)(name := colls db name @ [\<lparr>oid = fresh_ids db 0, contents = d\<rparr>]),
        fresh_ids := (\<lambda>n. fresh_ids db (Suc n))\<rparr>"

text \<open>
  \<^verbatim>\<open>sort(k, -1)\<close>: descending by the field \<open>k\<close>. A missing field sorts as null, an array
  by its largest element, an empty array below null. Documents with equal keys keep
  their stored order (the store promises no order among them; the model fixes this one).
\<close>

fun largest :: "bson \<Rightarrow> bson list \<Rightarrow> bson" where
  "largest m [] = m"
| "largest m (x # xs) = largest (if bson_cmp m x = LT then x else m) xs"

definition sort_key :: "pystr \<Rightarrow> document \<Rightarrow> bson option" where
  "sort_key k d =
     (case contents d k of
        None \<Rightarrow> Some VNone
      | Some (VList []) \<Rightarrow> None
      | Some (VList (x # xs)) \<Rightarrow> Some (largest x xs)
      | Some v \<Rightarrow> Some v)"

fun key_cmp :: "bson option \<Rightarrow> bson option \<Rightarrow> cmp" where
  "key_cmp None None = EQ"
| "key_cmp None (Some w) = LT"
| "key_cmp (Some v) None = GT"
| "key_cmp (Some v) (Some w) = bson_cmp v w"

fun insert_desc :: "pystr \<Rightarrow> document \<Rightarrow> document list \<Rightarrow> document list" where
  "insert_desc k d [] = [d]"
| "insert_desc k d (x # xs) =
     (if key_cmp (sort_key k x) (sort_key k d) = GT then x # insert_desc k d xs
      else d # x # xs)"

definition sort_desc :: "pystr \<Rightarrow> document list \<Rightarrow> document list" where
  "sort_desc k ds = foldr (insert_desc k) ds []"

text \<open>
  \<^verbatim>\<open>limit(n)\<close>: zero is no limit, a negative limit counts as its absolute value, and
  a limit that does not fit eight bytes cannot be sent to the server.
\<close>

definition cursor_limit :: "int \<Rightarrow> 'a list \<Rightarrow> error + 'a list" where
  "cursor_limit n ds =
     (if n = 0 then Inr ds
      else if 2 ^ 63 \<le> \<bar>n\<bar> then Inl OverflowError
      else Inr (take (nat \<bar>n\<bar>) ds))"

text \<open>
  Modelled from the spec: \<^verbatim>\<open>get_documents\<close> of \<^verbatim>\<open>database.py\<close>, which is not
  among the sources. It returns every document of the named collection, with no filter, in
  the store's order.
\<close>

definition get_documents :: "mongodb \<Rightarrow> pystr \<Rightarrow> document list" where
  "get_documents db name = colls db name"

subsection \<open>The handlers\<close>

text \<open>The two static handlers, \<^verbatim>\<open>GET /\<close> and \<^verbatim>\<open>GET /api/hello\<close>.\<close>

record message_out =
  message :: pystr

definition read_root :: "mongodb option \<Rightarrow> error + message_out" where
  "read_root db = Inr \<lparr>message = lit ''Creator Social API running''\<rparr>"

definition hello :: "mongodb option \<Rightarrow> error + message_out" where
  "hello db = Inr \<lparr>message = lit ''Hello from the Creator Social backend!''\<rparr>"

text \<open>
  \<^verbatim>\<open>GET /test\<close>. The status strings start with a check mark (U+2705), a cross mark
  (U+274C) or a warning sign (U+26A0 U+FE0F). The handler reads the environment through
  \<open>getenv\<close>; \<open>listing\<close> is what \<^verbatim>\<open>db.list_collection_names()\<close> does when called:
  \<open>Inl msg\<close> when it raises an exception \<open>e\<close> with \<^verbatim>\<open>str(e)\<close> equal to \<open>msg\<close>,
  \<open>Inr names\<close> when it returns. \<open>try_except\<close> is a \<^verbatim>\<open>try\<close> block with its handler; an
  exception carries the response dict as it stood when raised.
\<close>

record test_response =
  backend :: pystr
  database :: pystr
  database_url :: "pystr option"
  database_name :: "pystr option"
  connection_status :: pystr
  collections :: "pystr list"

definition check_mark :: pystr where
  "check_mark = [9989]"

definition cross_mark :: pystr where
  "cross_mark = [10060]"

definition warning_sign :: pystr where
  "warning_sign = [9888, 65039]"

definition try_except :: "'e + 'a \<Rightarrow> ('e \<Rightarrow> 'x + 'a) \<Rightarrow> 'x + 'a" where
  "try_except body handler = (case body of Inl e \<Rightarrow> handler e | Inr a \<Rightarrow> Inr a)"

definition truthy :: "pystr option \<Rightarrow> bool" where
  "truthy s = (case s of None \<Rightarrow> False | Some t \<Rightarrow> t \<noteq> [])"

definition test_database ::
  "(pystr \<Rightarrow> pystr option) \<Rightarrow> mongodb option \<Rightarrow> pystr + pystr list \<Rightarrow> error + test_response" where
  "test_database getenv db listing =
     (let response =
            \<lparr>backend = check_mark @ lit '' Running'',
             database = cross_mark @ lit '' Not Available'',
             database_url = None,
             database_name = None,
             connection_status = lit ''Not Connected'',
             collections = []\<rparr>
      in try_except
           (case db of
              Some handle \<Rightarrow>
                (let response = response\<lparr>database := check_mark @ lit '' Available''\<rparr>;
                     response = response\<lparr>database_url :=
                       Some (if truthy (getenv (lit ''DATABASE_URL''))
                             then check_mark @ lit '' Set''
                             else cross_mark @ lit '' Not Set'')\<rparr>;
                     response = response\<lparr>database_name :=
                       (if truthy (getenv (lit ''DATABASE_NAME''))
                        then getenv (lit ''DATABASE_NAME'')
                        else Some (cross_mark @ lit '' Not Set''))\<rparr>;
                     response = response\<lparr>connection_status := lit ''Connected''\<rparr>
                 in try_except
                      (case listing of
                         Inl msg \<Rightarrow> Inl msg
                       | Inr names \<Rightarrow>
                           Inr (response\<lparr>collections := take 10 names,
                                  database := check_mark @ lit '' Connected & Working''\<rparr>))
                      (\<lambda>msg. Inr (response\<lparr>database :=
                         warning_sign @ lit ''  Connected but Error: '' @ take 50 msg\<rparr>)))
            | None \<Rightarrow>
                Inr (response\<lparr>database := warning_sign @ lit ''  Available but not initialized''\<rparr>))
           (\<lambda>(msg, response). Inr (response\<lparr>database :=
              cross_mark @ lit '' Error: '' @ take 50 msg\<rparr>)))"

text \<open>\<^verbatim>\<open>POST /seed\<close>: the two catalogues, the two loops and the handler.\<close>

definition segments_seed :: "dict list" where
  "segments_seed =
     [dict_lit [(''name'', VStr (lit ''Technology'')),
                (''slug'', VStr (lit ''technology'')),
                (''description'', VStr (lit ''Tech reviews, coding, gadgets'')),
                (''color'', VStr (lit ''#60A5FA''))],
      dict_lit [(''name'', VStr (lit ''Gaming'')),
                (''slug'', VStr (lit ''gaming'')),
                (''description'', VStr (lit ''Let'' @ 34 # lit ''s plays, esports, streaming'')),
                (''color'', VStr (lit ''#A78BFA''))],
      dict_lit [(''name'', VStr (lit ''Lifestyle'')),
                (''slug'', VStr (lit ''lifestyle'')),
                (''description'', VStr (lit ''Wellness, productivity, daily vlogs'')),
                (''color'', VStr (lit ''#34D399''))],
      dict_lit [(''name'', VStr (lit ''Education'')),
                (''slug'', VStr (lit ''education'')),
                (''description'', VStr (lit ''Explainers, tutorials, lectures'')),
                (''color'', VStr (lit ''#F59E0B''))]]"

text \<open>The ratings are the doubles the literals 4.7, 4.5, 4.3 and 4.8 denote.\<close>

definition creators_seed :: "dict list" where
  "creators_seed =
     [dict_lit [(''name'', VStr (lit ''TechNova'')),
                (''handle'', VStr (lit ''technova'')),
                (''platforms'', VList [VStr (lit ''YouTube''), VStr (lit ''X''), VStr (lit ''TikTok'')]),
                (''avatar_url'', VStr (lit ''https://i.pravatar.cc/150?img=11'')),
                (''bio'', VStr (lit ''Deep dives into emerging tech.'')),
                (''segments'', VList [VStr (lit ''technology'')]),
                (''followers'', VInt 1200000),
                (''rating'', VFloat (Finite (5291729562160333 / 2 ^ 50))),
                (''verified'', VBool True)],
      dict_lit [(''name'', VStr (lit ''GamePulse'')),
                (''handle'', VStr (lit ''gamepulse'')),
                (''platforms'', VList [VStr (lit ''Twitch''), VStr (lit ''YouTube'')]),
                (''avatar_url'', VStr (lit ''https://i.pravatar.cc/150?img=12'')),
                (''bio'', VStr (lit ''Strategy breakdowns and chill streams.'')),
                (''segments'', VList [VStr (lit ''gaming'')]),
                (''followers'', VInt 860000),
                (''rating'', VFloat (Finite (9 / 2))),
                (''verified'', VBool True)],
      dict_lit [(''name'', VStr (lit ''DailyFlow'')),
                (''handle'', VStr (lit ''dailyflow'')),
                (''platforms'', VList [VStr (lit ''Instagram''), VStr (lit ''YouTube'')]),
                (''avatar_url'', VStr (lit ''https://i.pravatar.cc/150?img=13'')),
                (''bio'', VStr (lit ''Wellness routines that actually stick.'')),
                (''segments'', VList [VStr (lit ''lifestyle'')]),
                (''followers'', VInt 430000),
                (''rating'', VFloat (Finite (4841369599423283 / 2 ^ 50))),
                (''verified'', VBool False)],
      dict_lit [(''name'', VStr (lit ''ProfLearn'')),
                (''handle'', VStr (lit ''proflearn'')),
                (''platforms'', VList [VStr (lit ''YouTube''), VStr (lit ''Udemy'')]),
                (''avatar_url'', VStr (lit ''https://i.pravatar.cc/150?img=14'')),
                (''bio'', VStr (lit ''Clear, concise CS courses.'')),
                (''segments'', VList [VStr (lit ''education''), VStr (lit ''technology'')]),
                (''followers'', VInt 650000),
                (''rating'', VFloat (Finite (5404319552844595 / 2 ^ 50))),
                (''verified'', VBool True)]]"

fun seed_segments :: "dict list \<Rightarrow> mongodb \<Rightarrow> int \<Rightarrow> error + mongodb \<times> int" where
  "seed_segments [] db created_segments = Inr (db, created_segments)"
| "seed_segments (seg # rest) db created_segments =
     (case seg (lit ''slug'') of
        None \<Rightarrow> Inl (KeyError (lit ''slug''))
      | Some slug \<Rightarrow>
          (if find_one (colls db (lit ''segment'')) (FieldEq (lit ''slug'') slug) = None
           then seed_segments rest (insert_one db (lit ''segment'') seg) (created_segments + 1)
           else seed_segments rest db created_segments))"

fun seed_creators :: "dict list \<Rightarrow> mongodb \<Rightarrow> int \<Rightarrow> mongodb \<times> int" where
  "seed_creators [] db created_creators = (db, created_creators)"
| "seed_creators (crt # rest) db created_creators =
     (if find_one (colls db (lit ''creator'')) (FieldEq (lit ''handle'') (get crt (lit ''handle''))) = None
      then seed_creators rest (insert_one db (lit ''creator'') crt) (created_creators + 1)
      else seed_creators rest db created_creators)"

definition not_configured :: error where
  "not_configured = HTTPException 500 (lit ''Database not configured'')"

definition seed_data :: "mongodb option \<Rightarrow> error + SeedResponse \<times> mongodb" where
  "seed_data db =
     (case db of
        None \<Rightarrow> Inl not_configured
      | Some handle \<Rightarrow>
          and_then (seed_segments segments_seed handle 0) (\<lambda>(db1, created_segments).
            (case seed_creators creators_seed db1 0 of (db2, created_creators) \<Rightarrow>
               Inr (\<lparr>segments_created = created_segments,
                      creators_created = created_creators\<rparr>, db2))))"

text \<open>\<^verbatim>\<open>GET /segments\<close>.\<close>

definition to_segment_out :: "pylib \<Rightarrow> document \<Rightarrow> error + SegmentOut" where
  "to_segment_out L d =
     new_SegmentOut L (get (contents d) (lit ''name'')) (get (contents d) (lit ''slug''))
       (get (contents d) (lit ''description'')) (get (contents d) (lit ''color''))"

definition list_segments :: "pylib \<Rightarrow> mongodb option \<Rightarrow> error + SegmentOut list" where
  "list_segments L db =
     (case db of
        None \<Rightarrow> Inl not_configured
      | Some handle \<Rightarrow> project_all (to_segment_out L) (get_documents handle (lit ''segment'')))"

text \<open>
  \<^verbatim>\<open>GET /top-creators\<close>. The projection of one document converts
  \<^verbatim>\<open>followers\<close> and \<^verbatim>\<open>rating\<close> first, as the arguments of the constructor are
  evaluated before it validates.
\<close>

definition to_creator_out :: "pylib \<Rightarrow> document \<Rightarrow> error + CreatorOut" where
  "to_creator_out L d =
     and_then (py_int L (get_default (contents d) (lit ''followers'') (VInt 0))) (\<lambda>followers.
     and_then (py_float L (get_default (contents d) (lit ''rating'') (VInt 0))) (\<lambda>rating.
       new_CreatorOut L (str_of_oid (oid d))
         (get (contents d) (lit ''name''))
         (get (contents d) (lit ''handle''))
         (get (contents d) (lit ''avatar_url''))
         (get_default (contents d) (lit ''segments'') (VList []))
         followers rating
         (py_bool (get_default (contents d) (lit ''verified'') (VBool False)))))"

definition top_creators :: "pylib \<Rightarrow> mongodb option \<Rightarrow> pystr option \<Rightarrow> int \<Rightarrow> error + CreatorOut list" where
  "top_creators L db segment limit =
     (case db of
        None \<Rightarrow> Inl not_configured
      | Some handle \<Rightarrow>
          (let filt = (case segment of
                         None \<Rightarrow> MatchAll
                       | Some s \<Rightarrow> if s \<noteq> [] then FieldIn (lit ''segments'') [VStr s]
                                  else MatchAll)
           in and_then
                (cursor_limit limit
                   (sort_desc (lit ''followers'') (find_all (colls handle (lit ''creator'')) filt)))
                (project_all (to_creator_out L))))"

subsection \<open>Example data\<close>

text \<open>
  For the closed examples: a library that reads no number out of a string and renders no
  number as a string (no document of the examples holds a string where a number is
  converted, or a number where a string is validated, so no example rests on that choice),
  and a configured database with nothing stored.
\<close>

definition example_lib :: pylib where
  "example_lib = \<lparr>int_of_str = (\<lambda>s. None), float_of_str = (\<lambda>s. None), str_of_num = (\<lambda>v. None)\<rparr>"

definition empty_db :: mongodb where
  "empty_db = \<lparr>colls = (\<lambda>name. []), fresh_ids = (\<lambda>n. of_nat n)\<rparr>"

text \<open>A creator document that holds a name only, and a database that stores just it.\<close>

definition ada :: document where
  "ada = \<lparr>oid = 1, contents = dict_lit [(''name'', VStr (lit ''Ada''))]\<rparr>"

definition ada_db :: mongodb where
  "ada_db = empty_db\<lparr>colls := (colls empty_db)(lit ''creator'' := [ada])\<rparr>"

text \<open>
  A database that already stores a segment with the slug \<^verbatim>\<open>technology\<close> under
  another name, and a creator with the handle \<^verbatim>\<open>gamepulse\<close>.
\<close>

definition old_tech :: document where
  "old_tech = \<lparr>oid = 7, contents = dict_lit [(''name'', VStr (lit ''Old tech'')),
                                            (''slug'', VStr (lit ''technology''))]\<rparr>"

definition old_pulse :: document where
  "old_pulse = \<lparr>oid = 8, contents = dict_lit [(''name'', VStr (lit ''Pulse'')),
                                             (''handle'', VStr (lit ''gamepulse'')),
                                             (''segments'', VList [])]\<rparr>"

definition used_db :: mongodb where
  "used_db = empty_db\<lparr>colls := (colls empty_db)(lit ''segment'' := [old_tech],
                                                 lit ''creator'' := [old_pulse])\<rparr>"

text \<open>Three creators with 100, 500 and 300 followers, stored in that order.\<close>

definition three_db :: mongodb where
  "three_db = empty_db\<lparr>colls := (colls empty_db)(lit ''creator'' :=
     [\<lparr>oid = 1, contents = dict_lit [(''name'', VStr (lit ''P'')), (''followers'', VInt 100)]\<rparr>,
      \<lparr>oid = 2, contents = dict_lit [(''name'', VStr (lit ''Q'')), (''followers'', VInt 500)]\<rparr>,
      \<lparr>oid = 3, contents = dict_lit [(''name'', VStr (lit ''R'')), (''followers'', VInt 300)]\<rparr>])\<rparr>"

text \<open>
  The creators A (segment \<^verbatim>\<open>gaming\<close>, 500 followers) and B (segment
  \<^verbatim>\<open>technology\<close>, 900 followers), stored in that order.
\<close>

definition creator_a :: document where
  "creator_a = \<lparr>oid = 10, contents = dict_lit [(''name'', VStr (lit ''A'')),
                                              (''segments'', VList [VStr (lit ''gaming'')]),
                                              (''followers'', VInt 500)]\<rparr>"

definition creator_b :: document where
  "creator_b = \<lparr>oid = 11, contents = dict_lit [(''name'', VStr (lit ''B'')),
                                              (''segments'', VList [VStr (lit ''technology'')]),
                                              (''followers'', VInt 900)]\<rparr>"

definition ab_db :: mongodb where
  "ab_db = empty_db\<lparr>colls := (colls empty_db)(lit ''creator'' := [creator_a, creator_b])\<rparr>"

subsection \<open>Facts about the model\<close>

subsubsection \<open>Literals and conversions\<close>

lemma lit_eq_iff [simp]: "lit a = lit b \<longleftrightarrow> a = b"
  unfolding lit_def by (simp add: inj_map_eq_map inj_of_char)

lemma lit_Nil [simp]: "lit [] = []"
  by (simp add: lit_def)

lemma lit_eq_Nil [simp]: "lit s = [] \<longleftrightarrow> s = []"
  by (simp add: lit_def)

lemma dict_lit_Nil [simp]: "dict_lit [] k = None"
  by (simp add: dict_lit_def)

lemma dict_lit_Cons [simp]:
  "dict_lit ((a, v) # kvs) k = (if lit a = k then Some v else dict_lit kvs k)"
  by (auto simp: dict_lit_def)

lemma cmp_str_eq [simp]: "cmp_str s t = EQ \<longleftrightarrow> s = t"
  by (induction s t rule: cmp_str.induct) (auto simp: cmp_of_def)

lemma bit_length_0 [simp]: "bit_length 0 = 0"
  by (simp add: bit_length.simps)

lemma float_of_int_0 [simp]: "float_of_int 0 = Inr (Finite 0)"
  by (simp add: float_of_int_def)

lemma str_of_oid_1: "str_of_oid 1 = lit ''000000000000000000000001''"
  by code_simp

subsubsection \<open>Sorting, limiting and projecting\<close>

lemma mset_insert_desc [simp]: "mset (insert_desc k d xs) = add_mset d (mset xs)"
  by (induction xs) auto

lemma mset_sort_desc [simp]: "mset (sort_desc k ds) = mset ds"
  by (induction ds) (auto simp: sort_desc_def)

lemma length_sort_desc [simp]: "length (sort_desc k ds) = length ds"
  using mset_sort_desc [of k ds] by (metis size_mset)

lemma set_sort_desc [simp]: "set (sort_desc k ds) = set ds"
  using mset_sort_desc [of k ds] by (metis set_mset_mset)

lemma to_creator_out_id: "to_creator_out L d = Inr c \<Longrightarrow> c_id c = str_of_oid (oid d)"
  by (auto simp: to_creator_out_def new_CreatorOut_def and_then_def split: sum.splits)

lemma project_all_ids:
  "project_all (to_creator_out L) ds = Inr res \<Longrightarrow>
     map c_id res = map (\<lambda>d. str_of_oid (oid d)) ds"
  by (induction ds arbitrary: res) (auto simp: and_then_def to_creator_out_id split: sum.splits)

lemma cursor_limit_all:
  "int (length ds) \<le> limit \<Longrightarrow> limit < 2 ^ 63 \<Longrightarrow> cursor_limit limit ds = Inr ds"
  by (simp add: cursor_limit_def)

subsubsection \<open>Seeding\<close>

lemma ada_out:
  "to_creator_out example_lib ada =
     Inr \<lparr>c_id = lit ''000000000000000000000001'', c_name = lit ''Ada'', c_handle = None,
          c_avatar_url = None, c_segments = [], c_followers = 0, c_rating = Finite 0,
          c_verified = False\<rparr>"
  by (simp add: to_creator_out_def new_CreatorOut_def and_then_def get_def get_default_def ada_def
      str_of_oid_1)

lemma seed_twice_eval:
  assumes "colls db (lit ''segment'') = []" and "colls db (lit ''creator'') = []"
  shows "case seed_data (Some db) of
           Inl e \<Rightarrow> False
         | Inr (r, db1) \<Rightarrow>
             r = \<lparr>segments_created = 4, creators_created = 4\<rparr> \<and>
             seed_data (Some db1) = Inr (\<lparr>segments_created = 0, creators_created = 0\<rparr>, db1) \<and>
             length (colls db1 (lit ''segment'')) = 4 \<and> length (colls db1 (lit ''creator'')) = 4"
  using assms
  by (simp add: seed_data_def segments_seed_def creators_seed_def and_then_def find_one_def
      insert_one_def field_matches_def bson_eq_def get_def)

lemma colls_insert_one:
  "colls (insert_one db name d) =
     (colls db)(name := colls db name @ [\<lparr>oid = fresh_ids db 0, contents = d\<rparr>])"
  by (simp add: insert_one_def)

lemma find_one_None: "find_one coll q = None \<longleftrightarrow> (\<forall>d\<in>set coll. \<not> matches q d)"
  by (auto simp: find_one_def find_None_iff)

lemma seed_segments_spec:
  assumes "\<forall>seg\<in>set seeds. seg (lit ''slug'') \<noteq> None"
  shows "\<exists>db' new. seed_segments seeds db n = Inr (db', n + int (length new)) \<and>
     colls db' = (colls db)(lit ''segment'' := colls db (lit ''segment'') @ new) \<and>
     (\<forall>x\<in>set new. \<forall>d\<in>set (colls db (lit ''segment'')).
        \<not> matches (FieldEq (lit ''slug'') (get (contents x) (lit ''slug''))) d \<and>
        contents x (lit ''slug'') \<noteq> None)"
  using assms
proof (induction seeds arbitrary: db n)
  case Nil
  show ?case by (intro exI [of _ db] exI [of _ "[]"]) simp
next
  case (Cons seg rest)
  then obtain slug where slug: "seg (lit ''slug'') = Some slug" by auto
  have rest: "\<forall>seg\<in>set rest. seg (lit ''slug'') \<noteq> None" using Cons.prems by simp
  show ?case
  proof (cases "find_one (colls db (lit ''segment'')) (FieldEq (lit ''slug'') slug) = None")
    case True
    define doc where "doc = \<lparr>oid = fresh_ids db 0, contents = seg\<rparr>"
    define db1 where "db1 = insert_one db (lit ''segment'') seg"
    have c1: "colls db1 = (colls db)(lit ''segment'' := colls db (lit ''segment'') @ [doc])"
      by (simp add: db1_def doc_def colls_insert_one)
    from Cons.IH [OF rest, of db1 "n + 1"] obtain db' new where
      r: "seed_segments rest db1 (n + 1) = Inr (db', n + 1 + int (length new))"
      and c: "colls db' = (colls db1)(lit ''segment'' := colls db1 (lit ''segment'') @ new)"
      and m: "\<forall>x\<in>set new. \<forall>d\<in>set (colls db1 (lit ''segment'')).
        \<not> matches (FieldEq (lit ''slug'') (get (contents x) (lit ''slug''))) d \<and>
        contents x (lit ''slug'') \<noteq> None"
      by blast
    have 1: "seed_segments (seg # rest) db n = Inr (db', n + int (length (doc # new)))"
      using True slug r by (simp add: db1_def add.commute add.left_commute)
    have 2: "colls db' = (colls db)(lit ''segment'' := colls db (lit ''segment'') @ (doc # new))"
      using c c1 by simp
    have 3: "\<forall>x\<in>set (doc # new). \<forall>d\<in>set (colls db (lit ''segment'')).
        \<not> matches (FieldEq (lit ''slug'') (get (contents x) (lit ''slug''))) d \<and>
        contents x (lit ''slug'') \<noteq> None"
      using m c1 True slug by (auto simp: find_one_None doc_def get_def)
    from 1 2 3 show ?thesis
      by (intro exI [of _ db'] exI [of _ "doc # new"]) blast
  next
    case False
    have "seed_segments (seg # rest) db n = seed_segments rest db n"
      by (simp add: slug False)
    with Cons.IH [OF rest, of db n] show ?thesis by simp
  qed
qed

lemma seed_creators_spec:
  "\<exists>db' new. seed_creators seeds db n = (db', n + int (length new)) \<and>
     colls db' = (colls db)(lit ''creator'' := colls db (lit ''creator'') @ new) \<and>
     (\<forall>x\<in>set new. \<forall>d\<in>set (colls db (lit ''creator'')).
        \<not> matches (FieldEq (lit ''handle'') (get (contents x) (lit ''handle''))) d)"
proof (induction seeds arbitrary: db n)
  case Nil
  show ?case by (intro exI [of _ db] exI [of _ "[]"]) simp
next
  case (Cons crt rest)
  show ?case
  proof (cases "find_one (colls db (lit ''creator''))
      (FieldEq (lit ''handle'') (get crt (lit ''handle''))) = None")
    case True
    define doc where "doc = \<lparr>oid = fresh_ids db 0, contents = crt\<rparr>"
    define db1 where "db1 = insert_one db (lit ''creator'') crt"
    have c1: "colls db1 = (colls db)(lit ''creator'' := colls db (lit ''creator'') @ [doc])"
      by (simp add: db1_def doc_def colls_insert_one)
    from Cons.IH [of db1 "n + 1"] obtain db' new where
      r: "seed_creators rest db1 (n + 1) = (db', n + 1 + int (length new))"
      and c: "colls db' = (colls db1)(lit ''creator'' := colls db1 (lit ''creator'') @ new)"
      and m: "\<forall>x\<in>set new. \<forall>d\<in>set (colls db1 (lit ''creator'')).
        \<not> matches (FieldEq (lit ''handle'') (get (contents x) (lit ''handle''))) d"
      by blast
    have 1: "seed_creators (crt # rest) db n = (db', n + int (length (doc # new)))"
      using True r by (simp add: db1_def add.commute add.left_commute)
    have 2: "colls db' = (colls db)(lit ''creator'' := colls db (lit ''creator'') @ (doc # new))"
      using c c1 by simp
    have 3: "\<forall>x\<in>set (doc # new). \<forall>d\<in>set (colls db (lit ''creator'')).
        \<not> matches (FieldEq (lit ''handle'') (get (contents x) (lit ''handle''))) d"
      using m c1 True by (auto simp: find_one_None doc_def)
    from 1 2 3 show ?thesis
      by (intro exI [of _ db'] exI [of _ "doc # new"]) blast
  next
    case False
    have "seed_creators (crt # rest) db n = seed_creators rest db n"
      by (simp add: False)
    with Cons.IH [of db n] show ?thesis by simp
  qed
qed

lemma matches_own_str:
  "contents d k = Some (VStr s) \<Longrightarrow> matches (FieldEq k (VStr s)) d"
  by (simp add: field_matches_def bson_eq_def)

lemma segments_seed_slugs: "\<forall>seg\<in>set segments_seed. seg (lit ''slug'') \<noteq> None"
  by (simp add: segments_seed_def)

lemma used_db_eval:
  "case seed_data (Some used_db) of
     Inl e \<Rightarrow> False
   | Inr (r, db') \<Rightarrow>
       r = \<lparr>segments_created = 3, creators_created = 3\<rparr> \<and>
       filter (\<lambda>d. contents d (lit ''slug'') = Some (VStr (lit ''technology'')))
         (colls db' (lit ''segment'')) = [old_tech] \<and>
       filter (\<lambda>d. contents d (lit ''handle'') = Some (VStr (lit ''gamepulse'')))
         (colls db' (lit ''creator'')) = [old_pulse]"
  by (simp add: seed_data_def segments_seed_def creators_seed_def and_then_def find_one_def
      insert_one_def field_matches_def bson_eq_def get_def used_db_def empty_db_def old_tech_def
      old_pulse_def)

subsubsection \<open>Sorting on integer keys\<close>

lemma sort_key_int: "contents d k = Some (VInt n) \<Longrightarrow> sort_key k d = Some (VInt n)"
  by (simp add: sort_key_def)

lemma bson_cmp_int [simp]: "bson_cmp (VInt a) (VInt b) = cmp_of a b"
  by (simp add: cmp_of_def)

lemma set_insert_desc [simp]: "set (insert_desc k d xs) = insert d (set xs)"
  using mset_insert_desc [of k d xs] by (metis set_mset_add_mset_insert set_mset_mset)

lemma insert_desc_sorted:
  assumes "\<forall>x\<in>set (d # xs). contents x k = Some (VInt (g x))"
    and "sorted_wrt (\<lambda>a b. b \<le> a) (map g xs)"
  shows "sorted_wrt (\<lambda>a b. b \<le> a) (map g (insert_desc k d xs))"
  using assms
proof (induction xs)
  case Nil
  then show ?case by simp
next
  case (Cons x xs)
  have kd: "sort_key k d = Some (VInt (g d))" and kx: "sort_key k x = Some (VInt (g x))"
    using Cons.prems(1) by (simp_all add: sort_key_int)
  show ?case
  proof (cases "g d < g x")
    case True
    then have "insert_desc k d (x # xs) = x # insert_desc k d xs"
      by (simp add: kd kx cmp_of_def)
    moreover have "sorted_wrt (\<lambda>a b. b \<le> a) (map g (insert_desc k d xs))"
      using Cons by simp
    ultimately show ?thesis using Cons.prems(2) True by auto
  next
    case False
    then have "insert_desc k d (x # xs) = d # x # xs"
      by (simp add: kd kx cmp_of_def)
    then show ?thesis using Cons.prems(2) False by auto
  qed
qed

lemma sort_desc_sorted:
  assumes "\<forall>x\<in>set ds. contents x k = Some (VInt (g x))"
  shows "sorted_wrt (\<lambda>a b. b \<le> a) (map g (sort_desc k ds))"
  using assms
proof (induction ds)
  case Nil
  then show ?case by (simp add: sort_desc_def)
next
  case (Cons d ds)
  have "sort_desc k (d # ds) = insert_desc k d (sort_desc k ds)"
    by (simp add: sort_desc_def)
  moreover have "sorted_wrt (\<lambda>a b. b \<le> a) (map g (insert_desc k d (sort_desc k ds)))"
    using Cons by (intro insert_desc_sorted) simp_all
  ultimately show ?case by simp
qed

lemma sort_desc_int_keys:
  assumes "\<forall>x\<in>set ds. contents x k = Some (VInt (g x))"
  shows "map g (sort_desc k ds) = rev (sort (map g ds))"
proof -
  have "sorted (rev (map g (sort_desc k ds)))"
    using sort_desc_sorted [OF assms] by (simp add: sorted_wrt_rev)
  moreover have "mset (rev (map g (sort_desc k ds))) = mset (map g ds)"
    by simp
  ultimately have "sort (map g ds) = rev (map g (sort_desc k ds))"
    by (metis properties_for_sort)
  then show ?thesis by simp
qed

lemma to_creator_out_followers:
  "to_creator_out L d = Inr c \<Longrightarrow> contents d (lit ''followers'') = Some (VInt n) \<Longrightarrow> c_followers c = n"
  by (auto simp: to_creator_out_def new_CreatorOut_def and_then_def get_default_def split: sum.splits)

lemma project_all_followers:
  "project_all (to_creator_out L) ds = Inr res \<Longrightarrow>
   \<forall>d\<in>set ds. contents d (lit ''followers'') = Some (VInt (g d)) \<Longrightarrow>
   map c_followers res = map g ds"
  by (induction ds arbitrary: res)
     (auto simp: and_then_def to_creator_out_followers split: sum.splits)

lemma three_db_eval:
  "top_creators example_lib (Some three_db) None 8 =
     Inr [\<lparr>c_id = str_of_oid 2, c_name = lit ''Q'', c_handle = None, c_avatar_url = None,
           c_segments = [], c_followers = 500, c_rating = Finite 0, c_verified = False\<rparr>,
          \<lparr>c_id = str_of_oid 3, c_name = lit ''R'', c_handle = None, c_avatar_url = None,
           c_segments = [], c_followers = 300, c_rating = Finite 0, c_verified = False\<rparr>,
          \<lparr>c_id = str_of_oid 1, c_name = lit ''P'', c_handle = None, c_avatar_url = None,
           c_segments = [], c_followers = 100, c_rating = Finite 0, c_verified = False\<rparr>]"
  by (simp add: top_creators_def three_db_def empty_db_def find_all_def sort_desc_def sort_key_def
      cmp_of_def cursor_limit_def and_then_def to_creator_out_def new_CreatorOut_def get_def
      get_default_def)

subsubsection \<open>The segment filter\<close>

lemma bson_eq_VStr: "bson_eq x (VStr s) \<longleftrightarrow> x = VStr s"
  by (cases x) (simp_all add: bson_eq_def cmp_of_def)

lemma matches_segment_iff:
  "matches (FieldIn k [VStr s]) d \<longleftrightarrow>
     contents d k = Some (VStr s) \<or> (\<exists>xs. contents d k = Some (VList xs) \<and> VStr s \<in> set xs)"
proof (cases "contents d k")
  case None
  then show ?thesis by (simp add: field_matches_def)
next
  case (Some v)
  then show ?thesis
    by (cases v) (auto simp: field_matches_def bson_eq_VStr list_ex_iff)
qed

lemma str_list_member:
  "project_all (str_field L) xs = Inr ss \<Longrightarrow> VStr s \<in> set xs \<Longrightarrow> s \<in> set ss"
  by (induction xs arbitrary: ss) (auto simp: and_then_def split: sum.splits)

lemma to_creator_out_segments:
  assumes "to_creator_out L d = Inr c" and "matches (FieldIn (lit ''segments'') [VStr s]) d"
  shows "(\<exists>xs. contents d (lit ''segments'') = Some (VList xs) \<and> VStr s \<in> set xs) \<and>
     s \<in> set (c_segments c)"
proof -
  from assms(2) [unfolded matches_segment_iff]
  consider "contents d (lit ''segments'') = Some (VStr s)"
    | xs where "contents d (lit ''segments'') = Some (VList xs)" "VStr s \<in> set xs"
    by blast
  then show ?thesis
  proof cases
    case 1
    with assms(1) show ?thesis
      by (auto simp: to_creator_out_def new_CreatorOut_def and_then_def get_default_def
          split: sum.splits)
  next
    case 2
    from assms(1) 2(1) have "project_all (str_field L) xs = Inr (c_segments c)"
      by (auto simp: to_creator_out_def new_CreatorOut_def and_then_def get_default_def
          split: sum.splits)
    with 2 show ?thesis by (auto dest: str_list_member)
  qed
qed

lemma cursor_limit_subset: "cursor_limit n ds = Inr ds' \<Longrightarrow> set ds' \<subseteq> set ds"
  by (auto simp: cursor_limit_def split: if_splits dest: in_set_takeD)

lemma two_creators_example:
  assumes h: "(colls db (lit ''creator'') = [a, b] \<or> colls db (lit ''creator'') = [b, a])"
    "contents a (lit ''segments'') = Some (VList [VStr (lit ''gaming'')])"
    "contents a (lit ''followers'') = Some (VInt 500)"
    "contents b (lit ''segments'') = Some (VList [VStr (lit ''technology'')])"
    "contents b (lit ''followers'') = Some (VInt 900)"
  shows "top_creators L (Some db) (Some (lit ''gaming'')) 8 = project_all (to_creator_out L) [a]"
    and "top_creators L (Some db) None 1 = project_all (to_creator_out L) [b]"
proof -
  have ma: "matches (FieldIn (lit ''segments'') [VStr (lit ''gaming'')]) a"
    and mb: "\<not> matches (FieldIn (lit ''segments'') [VStr (lit ''gaming'')]) b"
    using h unfolding matches_segment_iff by auto
  have ka: "sort_key (lit ''followers'') a = Some (VInt 500)"
    and kb: "sort_key (lit ''followers'') b = Some (VInt 900)"
    using h by (simp_all add: sort_key_int)
  have f: "find_all (colls db (lit ''creator'')) (FieldIn (lit ''segments'') [VStr (lit ''gaming'')]) = [a]"
    using h(1) ma mb by (auto simp: find_all_def)
  show "top_creators L (Some db) (Some (lit ''gaming'')) 8 = project_all (to_creator_out L) [a]"
    by (simp add: top_creators_def f sort_desc_def cursor_limit_def and_then_def)
  have s: "sort_desc (lit ''followers'') (colls db (lit ''creator'')) = [b, a]"
    using h(1) by (auto simp: sort_desc_def ka kb cmp_of_def)
  show "top_creators L (Some db) None 1 = project_all (to_creator_out L) [b]"
    by (simp add: top_creators_def find_all_def s cursor_limit_def and_then_def)
qed

lemma project_all_sources:
  "project_all f ds = Inr res \<Longrightarrow> c \<in> set res \<Longrightarrow> \<exists>d\<in>set ds. f d = Inr c"
  by (induction ds arbitrary: res) (auto simp: and_then_def split: sum.splits)

lemma project_all_defined:
  "project_all f ds = Inr res \<Longrightarrow> d \<in> set ds \<Longrightarrow> \<exists>c. f d = Inr c"
  by (induction ds arbitrary: res) (auto simp: and_then_def split: sum.splits)

lemma only_matching:
  assumes "s \<noteq> []" and run: "top_creators L (Some db) (Some s) limit = Inr res"
  shows "\<forall>c\<in>set res. s \<in> set (c_segments c)"
proof
  fix c assume c: "c \<in> set res"
  let ?q = "FieldIn (lit ''segments'') [VStr s]"
  let ?docs = "colls db (lit ''creator'')"
  from run assms(1) obtain ds where
    lim: "cursor_limit limit (sort_desc (lit ''followers'') (find_all ?docs ?q)) = Inr ds"
    and pr: "project_all (to_creator_out L) ds = Inr res"
    by (simp add: top_creators_def and_then_def split: sum.splits)
  from project_all_sources [OF pr c] obtain d where d: "d \<in> set ds" "to_creator_out L d = Inr c"
    by blast
  from cursor_limit_subset [OF lim] d(1) have "d \<in> set (find_all ?docs ?q)" by auto
  then have "matches ?q d" unfolding find_all_def by simp
  from to_creator_out_segments [OF d(2) this] show "s \<in> set (c_segments c)" by blast
qed

lemma take_filter_all:
  assumes "\<forall>x\<in>set (take n xs). P x" and "length (filter P xs) \<le> n"
  shows "take n xs = filter P xs"
proof -
  have "filter P xs = filter P (take n xs @ drop n xs)"
    by simp
  also have "\<dots> = filter P (take n xs) @ filter P (drop n xs)"
    by (simp only: filter_append)
  also have "filter P (take n xs) = take n xs"
    using assms(1) by simp
  finally have eq: "filter P xs = take n xs @ filter P (drop n xs)" .
  show ?thesis
  proof (cases "n \<le> length xs")
    case True
    then have "length (take n xs) = n" by simp
    with eq have "length (filter P xs) = n + length (filter P (drop n xs))"
      by (metis length_append)
    with assms(2) have "length (filter P (drop n xs)) = 0" by linarith
    then have "filter P (drop n xs) = []" by simp
    with eq show ?thesis by simp
  next
    case False
    then show ?thesis using eq by simp
  qed
qed

lemma all_matching_limit:
  assumes "s \<noteq> []"
    and fits: "limit = 0 \<or> int (length (filter
        (\<lambda>d. \<exists>xs. contents d (lit ''segments'') = Some (VList xs) \<and> VStr s \<in> set xs)
        (colls db (lit ''creator'')))) \<le> limit"
    and "limit < 2 ^ 63"
    and run: "top_creators L (Some db) (Some s) limit = Inr res"
  shows "mset (map c_id res) = mset (map (\<lambda>d. str_of_oid (oid d))
        (filter (\<lambda>d. \<exists>xs. contents d (lit ''segments'') = Some (VList xs) \<and> VStr s \<in> set xs)
           (colls db (lit ''creator''))))"
proof -
  let ?q = "FieldIn (lit ''segments'') [VStr s]"
  let ?docs = "colls db (lit ''creator'')"
  let ?P = "\<lambda>d. \<exists>xs. contents d (lit ''segments'') = Some (VList xs) \<and> VStr s \<in> set xs"
  let ?sel = "sort_desc (lit ''followers'') (find_all ?docs ?q)"
  from run assms(1) obtain ds where
    lim: "cursor_limit limit ?sel = Inr ds"
    and pr: "project_all (to_creator_out L) ds = Inr res"
    by (simp add: top_creators_def and_then_def split: sum.splits)
  have good: "?P d" if "d \<in> set ds" for d
  proof -
    from cursor_limit_subset [OF lim] that have "d \<in> set (find_all ?docs ?q)" by auto
    then have m: "matches ?q d" unfolding find_all_def by simp
    from project_all_defined [OF pr that] obtain c where "to_creator_out L d = Inr c" by blast
    from to_creator_out_segments [OF this m] show ?thesis by blast
  qed
  have Pm: "matches ?q d" if "?P d" for d
    using that unfolding matches_segment_iff by blast
  have feq: "filter ?P (find_all ?docs ?q) = filter ?P ?docs"
    unfolding find_all_def filter_filter
    by (rule filter_cong [OF refl]) (use Pm in blast)
  have "mset (filter ?P ?sel) = filter_mset ?P (mset ?sel)"
    by (rule mset_filter)
  also have "\<dots> = filter_mset ?P (mset (find_all ?docs ?q))"
    by (simp only: mset_sort_desc)
  also have "\<dots> = mset (filter ?P (find_all ?docs ?q))"
    by (rule mset_filter [symmetric])
  finally have msel: "mset (filter ?P ?sel) = mset (filter ?P ?docs)"
    by (simp only: feq)
  have lsel: "length (filter ?P ?sel) = length (filter ?P ?docs)"
    using arg_cong [OF msel, of size] by (simp only: size_mset)
  have dsel: "ds = filter ?P ?sel"
  proof (cases "limit = 0")
    case True
    with lim have "ds = ?sel" by (simp add: cursor_limit_def)
    moreover have "filter ?P ds = ds" using good by (simp only: filter_id_conv) blast
    ultimately show ?thesis by (simp only:)
  next
    case False
    with fits have le: "int (length (filter ?P ?docs)) \<le> limit" by blast
    then have pos: "0 \<le> limit" by linarith
    with lim False assms(3) have ds: "ds = take (nat limit) ?sel"
      by (simp add: cursor_limit_def)
    have "take (nat limit) ?sel = filter ?P ?sel"
    proof (rule take_filter_all)
      show "\<forall>x\<in>set (take (nat limit) ?sel). ?P x" using good unfolding ds by blast
      show "length (filter ?P ?sel) \<le> nat limit" using le unfolding lsel by linarith
    qed
    with ds show ?thesis by (simp only:)
  qed
  have "map c_id res = map (\<lambda>d. str_of_oid (oid d)) ds"
    using pr by (rule project_all_ids)
  then have "mset (map c_id res) = image_mset (\<lambda>d. str_of_oid (oid d)) (mset (filter ?P ?sel))"
    unfolding dsel by (simp only: mset_map)
  then show ?thesis
    unfolding msel by (simp only: mset_map)
qed

lemma creator_a_out:
  "to_creator_out example_lib creator_a =
     Inr \<lparr>c_id = str_of_oid 10, c_name = lit ''A'', c_handle = None, c_avatar_url = None,
          c_segments = [lit ''gaming''], c_followers = 500, c_rating = Finite 0,
          c_verified = False\<rparr>"
  by (simp add: to_creator_out_def new_CreatorOut_def and_then_def get_def get_default_def
      creator_a_def)

lemma creator_b_out:
  "to_creator_out example_lib creator_b =
     Inr \<lparr>c_id = str_of_oid 11, c_name = lit ''B'', c_handle = None, c_avatar_url = None,
          c_segments = [lit ''technology''], c_followers = 900, c_rating = Finite 0,
          c_verified = False\<rparr>"
  by (simp add: to_creator_out_def new_CreatorOut_def and_then_def get_def get_default_def
      creator_b_def)

lemma ab_db_gaming_1:
  "top_creators example_lib (Some ab_db) (Some (lit ''gaming'')) 1 =
     Inr [\<lparr>c_id = str_of_oid 10, c_name = lit ''A'', c_handle = None, c_avatar_url = None,
           c_segments = [lit ''gaming''], c_followers = 500, c_rating = Finite 0,
           c_verified = False\<rparr>]"
proof -
  have "find_all (colls ab_db (lit ''creator'')) (FieldIn (lit ''segments'') [VStr (lit ''gaming'')])
      = [creator_a]"
    unfolding find_all_def
    by (simp add: ab_db_def empty_db_def matches_segment_iff creator_a_def creator_b_def
        del: matches.simps)
  then show ?thesis
    by (simp add: top_creators_def sort_desc_def cursor_limit_def and_then_def creator_a_out)
qed

section \<open>The claims\<close>

subsection \<open>Seeding\<close>

text \<open>
  C1. Seeding is idempotent: on a configured database whose \<^verbatim>\<open>segment\<close> and
  \<^verbatim>\<open>creator\<close> collections are empty, the first call creates 4 segments and 4 creators,
  and a second call right after it creates 0 and 0 and leaves the database as the first
  call left it, with 4 documents in each collection.
\<close>

theorem seeding_twice:
  assumes "colls db (lit ''segment'') = []" and "colls db (lit ''creator'') = []"
  shows "\<exists>db1. seed_data (Some db) = Inr (\<lparr>segments_created = 4, creators_created = 4\<rparr>, db1) \<and>
     seed_data (Some db1) = Inr (\<lparr>segments_created = 0, creators_created = 0\<rparr>, db1) \<and>
     length (colls db1 (lit ''segment'')) = 4 \<and> length (colls db1 (lit ''creator'')) = 4"
  using seed_twice_eval [OF assms] by (auto split: sum.splits prod.splits)

theorem seeding_twice_witness:
  "colls empty_db (lit ''segment'') = [] \<and> colls empty_db (lit ''creator'') = [] \<and>
   (\<exists>db1. seed_data (Some empty_db) = Inr (\<lparr>segments_created = 4, creators_created = 4\<rparr>, db1) \<and>
     seed_data (Some db1) = Inr (\<lparr>segments_created = 0, creators_created = 0\<rparr>, db1) \<and>
     length (colls db1 (lit ''segment'')) = 4 \<and> length (colls db1 (lit ''creator'')) = 4)"
  using seeding_twice [of empty_db] by (simp add: empty_db_def)

text \<open>
  C4. Seeding never touches what is stored: whatever the database holds, the call
  succeeds, the stored segments and creators remain, in place and unchanged, and the
  documents created come after them; the counts returned are the numbers of documents
  created. If a segment with some slug was stored (\<^verbatim>\<open>technology\<close>, say, whatever its
  other fields), no created segment has that slug; if a creator with some handle was
  stored, no created creator has that handle.
\<close>

theorem seeding_keeps_existing_records:
  "\<exists>r db' newS newC. seed_data (Some db) = Inr (r, db') \<and>
     colls db' (lit ''segment'') = colls db (lit ''segment'') @ newS \<and>
     colls db' (lit ''creator'') = colls db (lit ''creator'') @ newC \<and>
     segments_created r = int (length newS) \<and> creators_created r = int (length newC) \<and>
     (\<forall>s. (\<exists>d\<in>set (colls db (lit ''segment'')). contents d (lit ''slug'') = Some (VStr s)) \<longrightarrow>
        (\<forall>x\<in>set newS. contents x (lit ''slug'') \<noteq> Some (VStr s))) \<and>
     (\<forall>h. (\<exists>d\<in>set (colls db (lit ''creator'')). contents d (lit ''handle'') = Some (VStr h)) \<longrightarrow>
        (\<forall>x\<in>set newC. contents x (lit ''handle'') \<noteq> Some (VStr h)))"
proof -
  from seed_segments_spec [OF segments_seed_slugs, of db 0] obtain db1 newS where
    s1: "seed_segments segments_seed db 0 = Inr (db1, int (length newS))"
    and s2: "colls db1 = (colls db)(lit ''segment'' := colls db (lit ''segment'') @ newS)"
    and s3: "\<forall>x\<in>set newS. \<forall>d\<in>set (colls db (lit ''segment'')).
        \<not> matches (FieldEq (lit ''slug'') (get (contents x) (lit ''slug''))) d \<and>
        contents x (lit ''slug'') \<noteq> None"
    by auto
  from seed_creators_spec [of creators_seed db1 0] obtain db2 newC where
    c1: "seed_creators creators_seed db1 0 = (db2, int (length newC))"
    and c2: "colls db2 = (colls db1)(lit ''creator'' := colls db1 (lit ''creator'') @ newC)"
    and c3: "\<forall>x\<in>set newC. \<forall>d\<in>set (colls db1 (lit ''creator'')).
        \<not> matches (FieldEq (lit ''handle'') (get (contents x) (lit ''handle''))) d"
    by auto
  let ?r = "\<lparr>segments_created = int (length newS), creators_created = int (length newC)\<rparr>"
  have 1: "seed_data (Some db) = Inr (?r, db2)"
    by (simp add: seed_data_def and_then_def s1 c1)
  have 2: "colls db2 (lit ''segment'') = colls db (lit ''segment'') @ newS"
    by (simp add: c2 s2)
  have 3: "colls db2 (lit ''creator'') = colls db (lit ''creator'') @ newC"
    by (simp add: c2 s2)
  have 4: "contents x (lit ''slug'') \<noteq> Some (VStr s)"
    if "d \<in> set (colls db (lit ''segment''))" "contents d (lit ''slug'') = Some (VStr s)"
      "x \<in> set newS" for s d x
  proof
    assume "contents x (lit ''slug'') = Some (VStr s)"
    then have "get (contents x) (lit ''slug'') = VStr s" by (simp add: get_def)
    with s3 that(1,3) have "\<not> matches (FieldEq (lit ''slug'') (VStr s)) d" by fastforce
    with matches_own_str [OF that(2)] show False by simp
  qed
  have 5: "contents x (lit ''handle'') \<noteq> Some (VStr h)"
    if "d \<in> set (colls db (lit ''creator''))" "contents d (lit ''handle'') = Some (VStr h)"
      "x \<in> set newC" for h d x
  proof
    assume "contents x (lit ''handle'') = Some (VStr h)"
    then have "get (contents x) (lit ''handle'') = VStr h" by (simp add: get_def)
    moreover have "d \<in> set (colls db1 (lit ''creator''))" using that(1) by (simp add: s2)
    ultimately have "\<not> matches (FieldEq (lit ''handle'') (VStr h)) d"
      using c3 that(3) by fastforce
    with matches_own_str [OF that(2)] show False by simp
  qed
  show ?thesis
  proof (intro exI conjI allI impI ballI)
    show "seed_data (Some db) = Inr (?r, db2)" by (rule 1)
    show "colls db2 (lit ''segment'') = colls db (lit ''segment'') @ newS" by (rule 2)
    show "colls db2 (lit ''creator'') = colls db (lit ''creator'') @ newC" by (rule 3)
    show "segments_created ?r = int (length newS)" by simp
    show "creators_created ?r = int (length newC)" by simp
    show "contents x (lit ''slug'') \<noteq> Some (VStr s)"
      if "\<exists>d\<in>set (colls db (lit ''segment'')). contents d (lit ''slug'') = Some (VStr s)"
        and "x \<in> set newS" for s x
      using that 4 by blast
    show "contents x (lit ''handle'') \<noteq> Some (VStr h)"
      if "\<exists>d\<in>set (colls db (lit ''creator'')). contents d (lit ''handle'') = Some (VStr h)"
        and "x \<in> set newC" for h x
      using that 5 by blast
  qed
qed

theorem seeding_keeps_existing_records_witness:
  "old_tech \<in> set (colls used_db (lit ''segment'')) \<and>
   contents old_tech (lit ''slug'') = Some (VStr (lit ''technology'')) \<and>
   old_pulse \<in> set (colls used_db (lit ''creator'')) \<and>
   contents old_pulse (lit ''handle'') = Some (VStr (lit ''gamepulse'')) \<and>
   (\<exists>db'. seed_data (Some used_db) = Inr (\<lparr>segments_created = 3, creators_created = 3\<rparr>, db') \<and>
      filter (\<lambda>d. contents d (lit ''slug'') = Some (VStr (lit ''technology'')))
        (colls db' (lit ''segment'')) = [old_tech] \<and>
      filter (\<lambda>d. contents d (lit ''handle'') = Some (VStr (lit ''gamepulse'')))
        (colls db' (lit ''creator'')) = [old_pulse])"
proof -
  have pre: "old_tech \<in> set (colls used_db (lit ''segment'')) \<and>
      contents old_tech (lit ''slug'') = Some (VStr (lit ''technology'')) \<and>
      old_pulse \<in> set (colls used_db (lit ''creator'')) \<and>
      contents old_pulse (lit ''handle'') = Some (VStr (lit ''gamepulse''))"
    by (simp add: used_db_def empty_db_def old_tech_def old_pulse_def)
  from seeding_keeps_existing_records [of used_db] used_db_eval pre show ?thesis
    by (auto split: sum.splits prod.splits)
qed

subsection \<open>Top creators\<close>

text \<open>
  C5. With a segment slug, top creators returns the creators whose \<^verbatim>\<open>segments\<close>
  sequence holds the slug, and no others: every creator returned has the slug among its
  segments; and whenever the limit holds all of them (it is 0, or at least the number of
  stored documents whose \<^verbatim>\<open>segments\<close> list holds the slug, and below \<open>2 ^ 63\<close>), the
  identifiers returned are those of exactly these documents, each once. For the creators
  A (segments \<^verbatim>\<open>["gaming"]\<close>, 500 followers) and B (segments
  \<^verbatim>\<open>["technology"]\<close>, 900 followers), stored in either order, the query for
  \<^verbatim>\<open>gaming\<close> (with the default limit 8) returns the projection of A alone, and the
  query with no filter and limit 1 that of B alone.
\<close>

theorem segment_filter:
  "(s \<noteq> [] \<and> top_creators L (Some db) (Some s) limit = Inr res \<longrightarrow>
      (\<forall>c\<in>set res. s \<in> set (c_segments c))) \<and>
   (s \<noteq> [] \<and>
    (limit = 0 \<or> int (length (filter
        (\<lambda>d. \<exists>xs. contents d (lit ''segments'') = Some (VList xs) \<and> VStr s \<in> set xs)
        (colls db (lit ''creator'')))) \<le> limit) \<and>
    limit < 2 ^ 63 \<and>
    top_creators L (Some db) (Some s) limit = Inr res \<longrightarrow>
      mset (map c_id res) =
      mset (map (\<lambda>d. str_of_oid (oid d))
        (filter (\<lambda>d. \<exists>xs. contents d (lit ''segments'') = Some (VList xs) \<and> VStr s \<in> set xs)
           (colls db (lit ''creator''))))) \<and>
   ((colls db (lit ''creator'') = [a, b] \<or> colls db (lit ''creator'') = [b, a]) \<and>
    contents a (lit ''segments'') = Some (VList [VStr (lit ''gaming'')]) \<and>
    contents a (lit ''followers'') = Some (VInt 500) \<and>
    contents b (lit ''segments'') = Some (VList [VStr (lit ''technology'')]) \<and>
    contents b (lit ''followers'') = Some (VInt 900) \<longrightarrow>
      top_creators L (Some db) (Some (lit ''gaming'')) 8 = project_all (to_creator_out L) [a] \<and>
      top_creators L (Some db) None 1 = project_all (to_creator_out L) [b])"
  using only_matching [of s L db limit res]
    all_matching_limit [where s = s and limit = limit and db = db and L = L and res = res]
    two_creators_example [of db a b L]
  by blast

theorem segment_filter_witness:
  "lit ''gaming'' \<noteq> [] \<and>
   int (length (filter
     (\<lambda>d. \<exists>xs. contents d (lit ''segments'') = Some (VList xs) \<and> VStr (lit ''gaming'') \<in> set xs)
     (colls ab_db (lit ''creator'')))) \<le> 1 \<and>
   (1 :: int) < 2 ^ 63 \<and>
   top_creators example_lib (Some ab_db) (Some (lit ''gaming'')) 1 =
     Inr [\<lparr>c_id = str_of_oid 10, c_name = lit ''A'', c_handle = None, c_avatar_url = None,
           c_segments = [lit ''gaming''], c_followers = 500, c_rating = Finite 0,
           c_verified = False\<rparr>] \<and>
   colls ab_db (lit ''creator'') = [creator_a, creator_b] \<and>
   contents creator_a (lit ''segments'') = Some (VList [VStr (lit ''gaming'')]) \<and>
   contents creator_a (lit ''followers'') = Some (VInt 500) \<and>
   contents creator_b (lit ''segments'') = Some (VList [VStr (lit ''technology'')]) \<and>
   contents creator_b (lit ''followers'') = Some (VInt 900) \<and>
   top_creators example_lib (Some ab_db) (Some (lit ''gaming'')) 8 =
     Inr [\<lparr>c_id = str_of_oid 10, c_name = lit ''A'', c_handle = None, c_avatar_url = None,
           c_segments = [lit ''gaming''], c_followers = 500, c_rating = Finite 0,
           c_verified = False\<rparr>] \<and>
   top_creators example_lib (Some ab_db) None 1 =
     Inr [\<lparr>c_id = str_of_oid 11, c_name = lit ''B'', c_handle = None, c_avatar_url = None,
           c_segments = [lit ''technology''], c_followers = 900, c_rating = Finite 0,
           c_verified = False\<rparr>]"
proof -
  have pre: "colls ab_db (lit ''creator'') = [creator_a, creator_b] \<and>
      contents creator_a (lit ''segments'') = Some (VList [VStr (lit ''gaming'')]) \<and>
      contents creator_a (lit ''followers'') = Some (VInt 500) \<and>
      contents creator_b (lit ''segments'') = Some (VList [VStr (lit ''technology'')]) \<and>
      contents creator_b (lit ''followers'') = Some (VInt 900)"
    by (simp add: ab_db_def empty_db_def creator_a_def creator_b_def)
  have fits: "int (length (filter
      (\<lambda>d. \<exists>xs. contents d (lit ''segments'') = Some (VList xs) \<and> VStr (lit ''gaming'') \<in> set xs)
      (colls ab_db (lit ''creator'')))) \<le> 1"
    using pre by simp
  with segment_filter [where db = ab_db and a = creator_a and b = creator_b and L = example_lib]
    pre
  have "top_creators example_lib (Some ab_db) (Some (lit ''gaming'')) 8 =
      project_all (to_creator_out example_lib) [creator_a] \<and>
    top_creators example_lib (Some ab_db) None 1 =
      project_all (to_creator_out example_lib) [creator_b]"
    by blast
  with pre fits ab_db_gaming_1 show ?thesis
    by (simp add: creator_a_out creator_b_out and_then_def)
qed

text \<open>
  C6. Top creators come sorted by followers, descending: when every stored creator has an
  integer \<^verbatim>\<open>followers\<close> (the list \<open>fs\<close>, in stored order), with no filter and a
  limit of at least their number (and below \<open>2 ^ 63\<close>), the handler projects the stored
  documents, each once, in the order of decreasing followers; the follower counts it
  returns are \<open>fs\<close> sorted in descending order, strictly decreasing when \<open>fs\<close> has no
  repetition.
\<close>

theorem sorted_by_followers:
  assumes keys: "map (\<lambda>d. contents d (lit ''followers'')) (colls db (lit ''creator'')) =
      map (\<lambda>n. Some (VInt n)) fs"
    and lim: "int (length fs) \<le> limit" "limit < 2 ^ 63"
  shows "\<exists>ds. top_creators L (Some db) None limit = project_all (to_creator_out L) ds \<and>
      mset ds = mset (colls db (lit ''creator'')) \<and>
      map (\<lambda>d. contents d (lit ''followers'')) ds = map (\<lambda>n. Some (VInt n)) (rev (sort fs)) \<and>
      (\<forall>res. top_creators L (Some db) None limit = Inr res \<longrightarrow>
         map c_followers res = rev (sort fs) \<and>
         (distinct fs \<longrightarrow> sorted_wrt (\<lambda>a b. b < a) (map c_followers res)))"
proof -
  define docs where "docs = colls db (lit ''creator'')"
  define g :: "document \<Rightarrow> int" where "g = (\<lambda>d. case contents d (lit ''followers'') of Some (VInt n) \<Rightarrow> n | _ \<Rightarrow> 0)"
  define ds where "ds = sort_desc (lit ''followers'') docs"
  have len: "length docs = length fs"
    using keys unfolding docs_def by (metis length_map)
  have nth: "contents (docs ! i) (lit ''followers'') = Some (VInt (fs ! i))" if "i < length docs" for i
  proof -
    have "map (\<lambda>d. contents d (lit ''followers'')) docs ! i = map (\<lambda>n. Some (VInt n)) fs ! i"
      using keys unfolding docs_def by simp
    then show ?thesis using that len by simp
  qed
  have gk: "\<forall>d\<in>set docs. contents d (lit ''followers'') = Some (VInt (g d))"
  proof
    fix d assume "d \<in> set docs"
    then obtain i where "i < length docs" "docs ! i = d" by (auto simp: in_set_conv_nth)
    with nth [of i] show "contents d (lit ''followers'') = Some (VInt (g d))"
      by (simp add: g_def)
  qed
  have gfs: "map g docs = fs"
  proof (rule nth_equalityI)
    show "length (map g docs) = length fs" using len by simp
    show "map g docs ! i = fs ! i" if "i < length (map g docs)" for i
      using that nth [of i] by (simp add: g_def)
  qed
  have gds: "map g ds = rev (sort fs)"
    unfolding ds_def using sort_desc_int_keys [OF gk] gfs by simp
  have gk': "\<forall>d\<in>set ds. contents d (lit ''followers'') = Some (VInt (g d))"
    using gk by (simp add: ds_def)
  have run: "top_creators L (Some db) None limit = project_all (to_creator_out L) ds"
  proof -
    have "cursor_limit limit ds = Inr ds"
      using lim len by (intro cursor_limit_all) (simp_all add: ds_def)
    then show ?thesis
      by (simp add: top_creators_def find_all_def and_then_def ds_def docs_def)
  qed
  have 2: "mset ds = mset (colls db (lit ''creator''))"
    by (simp add: ds_def docs_def)
  have 3: "map (\<lambda>d. contents d (lit ''followers'')) ds = map (\<lambda>n. Some (VInt n)) (rev (sort fs))"
  proof -
    have "map (\<lambda>d. contents d (lit ''followers'')) ds = map (\<lambda>d. Some (VInt (g d))) ds"
      using gk' by simp
    also have "\<dots> = map (\<lambda>n. Some (VInt n)) (map g ds)" by simp
    finally show ?thesis by (simp add: gds)
  qed
  have 4: "map c_followers res = rev (sort fs) \<and>
      (distinct fs \<longrightarrow> sorted_wrt (\<lambda>a b. b < a) (map c_followers res))"
    if "top_creators L (Some db) None limit = Inr res" for res
  proof -
    have eq: "map c_followers res = rev (sort fs)"
      using that run project_all_followers [of L ds res g] gk' gds by simp
    have "sorted_wrt (\<lambda>a b. b < a) (rev (sort fs))" if "distinct fs"
      using that by (simp add: sorted_wrt_rev strict_sorted_iff)
    with eq show ?thesis by simp
  qed
  from run 2 3 4 show ?thesis by blast
qed

theorem sorted_by_followers_witness:
  "map (\<lambda>d. contents d (lit ''followers'')) (colls three_db (lit ''creator'')) =
     map (\<lambda>n. Some (VInt n)) [100, 500, 300] \<and>
   int (length [100, 500, 300 :: int]) \<le> 8 \<and> (8 :: int) < 2 ^ 63 \<and>
   (\<exists>res. top_creators example_lib (Some three_db) None 8 = Inr res \<and>
      map c_followers res = [500, 300, 100] \<and> map c_name res = [lit ''Q'', lit ''R'', lit ''P''])"
proof -
  have pre: "map (\<lambda>d. contents d (lit ''followers'')) (colls three_db (lit ''creator'')) =
      map (\<lambda>n. Some (VInt n)) [100, 500, 300]"
    by (simp add: three_db_def empty_db_def)
  from sorted_by_followers [OF pre, of 8 example_lib] three_db_eval pre show ?thesis
    by simp
qed

text \<open>
  C2, as the code has it. With \<^verbatim>\<open>limit = 0\<close> the handler returns every stored
  creator, since a cursor limit of zero is no limit; a limit greater than the number of
  stored creators, and below \<open>2 ^ 63\<close>, returns the same. The identifiers returned are
  those of the stored documents, each once.
\<close>

theorem limit_zero_is_no_limit:
  "top_creators L (Some db) None 0 =
     project_all (to_creator_out L) (sort_desc (lit ''followers'') (colls db (lit ''creator''))) \<and>
   (int (length (colls db (lit ''creator''))) < limit \<and> limit < 2 ^ 63 \<longrightarrow>
      top_creators L (Some db) segment limit = top_creators L (Some db) segment 0) \<and>
   (\<forall>res. top_creators L (Some db) None 0 = Inr res \<longrightarrow>
      mset (map c_id res) = mset (map (\<lambda>d. str_of_oid (oid d)) (colls db (lit ''creator''))))"
proof (intro conjI impI allI)
  show all: "top_creators L (Some db) None 0 =
     project_all (to_creator_out L) (sort_desc (lit ''followers'') (colls db (lit ''creator'')))"
    by (simp add: top_creators_def cursor_limit_def find_all_def and_then_def)
  show "top_creators L (Some db) segment limit = top_creators L (Some db) segment 0"
    if "int (length (colls db (lit ''creator''))) < limit \<and> limit < 2 ^ 63"
  proof -
    have "cursor_limit limit (sort_desc (lit ''followers'') (find_all (colls db (lit ''creator'')) q))
        = Inr (sort_desc (lit ''followers'') (find_all (colls db (lit ''creator'')) q))" for q
    proof (rule cursor_limit_all)
      have "length (filter (matches q) (colls db (lit ''creator'')))
          \<le> length (colls db (lit ''creator''))"
        by simp
      then show "int (length (sort_desc (lit ''followers'')
          (find_all (colls db (lit ''creator'')) q))) \<le> limit"
        unfolding find_all_def length_sort_desc using that by linarith
      show "limit < 2 ^ 63" using that by simp
    qed
    then show ?thesis
      by (simp add: top_creators_def cursor_limit_def Let_def)
  qed
  show "mset (map c_id res) = mset (map (\<lambda>d. str_of_oid (oid d)) (colls db (lit ''creator'')))"
    if "top_creators L (Some db) None 0 = Inr res" for res
  proof -
    have "map c_id res =
        map (\<lambda>d. str_of_oid (oid d)) (sort_desc (lit ''followers'') (colls db (lit ''creator'')))"
      using that all project_all_ids by simp
    then show ?thesis by simp
  qed
qed

theorem limit_zero_is_no_limit_witness:
  "int (length (colls ada_db (lit ''creator''))) < 5 \<and> (5 :: int) < 2 ^ 63 \<and>
   top_creators example_lib (Some ada_db) None 5 =
     Inr [\<lparr>c_id = lit ''000000000000000000000001'', c_name = lit ''Ada'', c_handle = None,
           c_avatar_url = None, c_segments = [], c_followers = 0, c_rating = Finite 0,
           c_verified = False\<rparr>]"
  using limit_zero_is_no_limit [of example_lib ada_db 5 None]
  by (simp add: ada_db_def empty_db_def sort_desc_def ada_out and_then_def)

text \<open>
  C2, as stated, fails: with one creator stored, \<^verbatim>\<open>limit = 0\<close> returns that creator
  and not an empty sequence; and the limit \<open>2 ^ 63\<close>, greater than the number of stored
  creators, raises instead of returning them.
\<close>

theorem limit_zero_counterexample:
  "top_creators example_lib (Some ada_db) None 0 =
     Inr [\<lparr>c_id = lit ''000000000000000000000001'', c_name = lit ''Ada'', c_handle = None,
           c_avatar_url = None, c_segments = [], c_followers = 0, c_rating = Finite 0,
           c_verified = False\<rparr>] \<and>
   top_creators example_lib (Some ada_db) None (2 ^ 63) = Inl OverflowError"
  by (simp add: top_creators_def cursor_limit_def find_all_def and_then_def ada_db_def empty_db_def
      sort_desc_def ada_out)

text \<open>
  C10. An empty \<^verbatim>\<open>segment\<close> parameter is no filter: the handler answers as it does
  with no \<^verbatim>\<open>segment\<close> at all, from every stored creator.
\<close>

theorem empty_segment_is_no_filter:
  "top_creators L db (Some []) limit = top_creators L db None limit \<and>
   top_creators L (Some handle) (Some []) limit =
     and_then (cursor_limit limit (sort_desc (lit ''followers'') (colls handle (lit ''creator''))))
       (project_all (to_creator_out L))"
  by (simp add: top_creators_def find_all_def split: option.splits)

subsection \<open>The read path\<close>

text \<open>
  C9. The projection of a creator document is lenient for its defaultable fields: a
  document with no \<^verbatim>\<open>followers\<close> field projects as the same document with
  \<^verbatim>\<open>followers\<close> 0 does, one with no \<^verbatim>\<open>rating\<close> as with rating 0.0, one with no
  \<^verbatim>\<open>verified\<close> as with \<^verbatim>\<open>False\<close>, one with no \<^verbatim>\<open>segments\<close> as with the
  empty list; and when all four are absent and the name, handle and avatar URL validate,
  the projection succeeds with 0, 0.0, false and the empty sequence.
\<close>

theorem absent_fields_default:
  "(contents d (lit ''followers'') = None \<longrightarrow>
      to_creator_out L d = to_creator_out L (d\<lparr>contents := (contents d)(lit ''followers'' \<mapsto> VInt 0)\<rparr>)) \<and>
   (contents d (lit ''rating'') = None \<longrightarrow>
      to_creator_out L d = to_creator_out L (d\<lparr>contents := (contents d)(lit ''rating'' \<mapsto> VFloat (Finite 0))\<rparr>)) \<and>
   (contents d (lit ''verified'') = None \<longrightarrow>
      to_creator_out L d = to_creator_out L (d\<lparr>contents := (contents d)(lit ''verified'' \<mapsto> VBool False)\<rparr>)) \<and>
   (contents d (lit ''segments'') = None \<longrightarrow>
      to_creator_out L d = to_creator_out L (d\<lparr>contents := (contents d)(lit ''segments'' \<mapsto> VList [])\<rparr>)) \<and>
   (contents d (lit ''followers'') = None \<and> contents d (lit ''rating'') = None \<and>
    contents d (lit ''verified'') = None \<and> contents d (lit ''segments'') = None \<and>
    str_field L (get (contents d) (lit ''name'')) = Inr n \<and>
    optional_str_field L (get (contents d) (lit ''handle'')) = Inr h \<and>
    optional_str_field L (get (contents d) (lit ''avatar_url'')) = Inr a \<longrightarrow>
      to_creator_out L d =
        Inr \<lparr>c_id = str_of_oid (oid d), c_name = n, c_handle = h, c_avatar_url = a,
             c_segments = [], c_followers = 0, c_rating = Finite 0, c_verified = False\<rparr>)"
  by (simp add: to_creator_out_def get_def get_default_def and_then_def new_CreatorOut_def)

theorem absent_fields_default_witness:
  "contents ada (lit ''followers'') = None \<and> contents ada (lit ''rating'') = None \<and>
   contents ada (lit ''verified'') = None \<and> contents ada (lit ''segments'') = None \<and>
   str_field example_lib (get (contents ada) (lit ''name'')) = Inr (lit ''Ada'') \<and>
   optional_str_field example_lib (get (contents ada) (lit ''handle'')) = Inr None \<and>
   optional_str_field example_lib (get (contents ada) (lit ''avatar_url'')) = Inr None \<and>
   to_creator_out example_lib ada =
     Inr \<lparr>c_id = str_of_oid (oid ada), c_name = lit ''Ada'', c_handle = None, c_avatar_url = None,
          c_segments = [], c_followers = 0, c_rating = Finite 0, c_verified = False\<rparr>"
proof -
  have pre: "contents ada (lit ''followers'') = None \<and> contents ada (lit ''rating'') = None \<and>
      contents ada (lit ''verified'') = None \<and> contents ada (lit ''segments'') = None \<and>
      str_field example_lib (get (contents ada) (lit ''name'')) = Inr (lit ''Ada'') \<and>
      optional_str_field example_lib (get (contents ada) (lit ''handle'')) = Inr None \<and>
      optional_str_field example_lib (get (contents ada) (lit ''avatar_url'')) = Inr None"
    by (simp add: ada_def get_def)
  with absent_fields_default [of ada example_lib "lit ''Ada''" None None]
  have "to_creator_out example_lib ada =
      Inr \<lparr>c_id = str_of_oid (oid ada), c_name = lit ''Ada'', c_handle = None, c_avatar_url = None,
           c_segments = [], c_followers = 0, c_rating = Finite 0, c_verified = False\<rparr>"
    by blast
  with pre show ?thesis by blast
qed

subsection \<open>The unconfigured database\<close>

text \<open>
  C7. With no database configured, \<^verbatim>\<open>/seed\<close>, \<^verbatim>\<open>/segments\<close> and
  \<^verbatim>\<open>/top-creators\<close> each raise the HTTP error 500 \<^verbatim>\<open>Database not configured\<close>,
  whatever their parameters (there is no handle to read from or write to), while
  \<^verbatim>\<open>/\<close>, \<^verbatim>\<open>/test\<close> and \<^verbatim>\<open>/api/hello\<close> return their responses.
\<close>

theorem unconfigured_database:
  "seed_data None = Inl (HTTPException 500 (lit ''Database not configured'')) \<and>
   list_segments L None = Inl (HTTPException 500 (lit ''Database not configured'')) \<and>
   top_creators L None segment limit = Inl (HTTPException 500 (lit ''Database not configured'')) \<and>
   read_root None = Inr \<lparr>message = lit ''Creator Social API running''\<rparr> \<and>
   test_database getenv None listing =
     Inr \<lparr>backend = check_mark @ lit '' Running'',
          database = warning_sign @ lit ''  Available but not initialized'',
          database_url = None, database_name = None,
          connection_status = lit ''Not Connected'', collections = []\<rparr> \<and>
   hello None = Inr \<lparr>message = lit ''Hello from the Creator Social backend!''\<rparr>"
  by (simp add: seed_data_def list_segments_def top_creators_def read_root_def hello_def
      test_database_def try_except_def not_configured_def)

subsection \<open>The diagnostics handler\<close>

text \<open>
  C8. \<^verbatim>\<open>GET /test\<close> never raises: whatever the environment, the handle and the
  outcome of the collection listing, it returns a response; the response names at most
  ten collections; and when the listing raises, the \<^verbatim>\<open>database\<close> field holds the
  message of the exception cut to its first 50 characters.
\<close>

theorem test_database_never_raises:
  "\<exists>r. test_database getenv db listing = Inr r \<and> length (collections r) \<le> 10 \<and>
     (\<forall>msg. db \<noteq> None \<and> listing = Inl msg \<longrightarrow>
        database r = warning_sign @ lit ''  Connected but Error: '' @ take 50 msg \<and>
        length (take 50 msg) \<le> 50)"
  by (cases db; cases listing) (auto simp: test_database_def try_except_def)

theorem test_database_never_raises_witness:
  "Some empty_db \<noteq> None \<and>
   test_database Map.empty (Some empty_db) (Inl (replicate 60 120)) =
     Inr \<lparr>backend = check_mark @ lit '' Running'',
          database = warning_sign @ lit ''  Connected but Error: '' @ replicate 50 120,
          database_url = Some (cross_mark @ lit '' Not Set''),
          database_name = Some (cross_mark @ lit '' Not Set''),
          connection_status = lit ''Connected'',
          collections = []\<rparr>"
  using test_database_never_raises [of Map.empty "Some empty_db" "Inl (replicate 60 120)"]
  by (simp add: test_database_def try_except_def truthy_def)

text \<open>
  C3, as the code has it. \<^verbatim>\<open>GET /test\<close> reports presence only for the connection
  string, and reports the database name itself: two environments that both hold a
  non-empty \<^verbatim>\<open>DATABASE_URL\<close> (possibly different) and agree on every other variable
  get the same response; and on a configured database the \<^verbatim>\<open>database_name\<close> field of
  the response is the value of \<^verbatim>\<open>DATABASE_NAME\<close> whenever that is set and non-empty.
\<close>

theorem test_database_reveals_name_not_url:
  assumes "truthy (e1 (lit ''DATABASE_URL''))" and "truthy (e2 (lit ''DATABASE_URL''))"
    and "\<forall>k. k \<noteq> lit ''DATABASE_URL'' \<longrightarrow> e1 k = e2 k"
  shows "test_database e1 db listing = test_database e2 db listing \<and>
    (\<forall>r. db \<noteq> None \<and> truthy (e1 (lit ''DATABASE_NAME'')) \<and> test_database e1 db listing = Inr r
        \<longrightarrow> database_name r = e1 (lit ''DATABASE_NAME''))"
proof -
  have "e1 (lit ''DATABASE_NAME'') = e2 (lit ''DATABASE_NAME'')"
    using assms(3) by simp
  then have same: "test_database e1 db listing = test_database e2 db listing"
    using assms(1,2) by (cases db; cases listing) (simp_all add: test_database_def)
  have "database_name r = e1 (lit ''DATABASE_NAME'')"
    if "db \<noteq> None" and "truthy (e1 (lit ''DATABASE_NAME''))"
      and "test_database e1 db listing = Inr r" for r
    using that by (cases db; cases listing) (auto simp: test_database_def try_except_def)
  with same show ?thesis by blast
qed

theorem test_database_reveals_name_not_url_witness:
  "truthy ([lit ''DATABASE_URL'' \<mapsto> lit ''mongodb://a'', lit ''DATABASE_NAME'' \<mapsto> lit ''social'']
       (lit ''DATABASE_URL'')) \<and>
   truthy ([lit ''DATABASE_URL'' \<mapsto> lit ''mongodb://b'', lit ''DATABASE_NAME'' \<mapsto> lit ''social'']
       (lit ''DATABASE_URL'')) \<and>
   test_database [lit ''DATABASE_URL'' \<mapsto> lit ''mongodb://a'', lit ''DATABASE_NAME'' \<mapsto> lit ''social'']
       (Some empty_db) (Inr [lit ''creator'']) =
   test_database [lit ''DATABASE_URL'' \<mapsto> lit ''mongodb://b'', lit ''DATABASE_NAME'' \<mapsto> lit ''social'']
       (Some empty_db) (Inr [lit ''creator'']) \<and>
   test_database [lit ''DATABASE_URL'' \<mapsto> lit ''mongodb://a'', lit ''DATABASE_NAME'' \<mapsto> lit ''social'']
       (Some empty_db) (Inr [lit ''creator'']) =
     Inr \<lparr>backend = check_mark @ lit '' Running'',
          database = check_mark @ lit '' Connected & Working'',
          database_url = Some (check_mark @ lit '' Set''),
          database_name = Some (lit ''social''),
          connection_status = lit ''Connected'',
          collections = [lit ''creator'']\<rparr>"
  using test_database_reveals_name_not_url
    [of "[lit ''DATABASE_URL'' \<mapsto> lit ''mongodb://a'', lit ''DATABASE_NAME'' \<mapsto> lit ''social'']"
        "[lit ''DATABASE_URL'' \<mapsto> lit ''mongodb://b'', lit ''DATABASE_NAME'' \<mapsto> lit ''social'']"
        "Some empty_db" "Inr [lit ''creator'']"]
  by (simp add: test_database_def try_except_def truthy_def)

text \<open>
  C3, as stated, fails: two environments that differ in the value of
  \<^verbatim>\<open>DATABASE_NAME\<close> only get different responses.
\<close>

theorem test_database_name_counterexample:
  "test_database [lit ''DATABASE_NAME'' \<mapsto> lit ''a''] (Some empty_db) (Inr [])
     \<noteq> test_database [lit ''DATABASE_NAME'' \<mapsto> lit ''b''] (Some empty_db) (Inr [])"
  by (simp add: test_database_def try_except_def truthy_def)

end
